theory Spec2Isabelle
  imports Main "HOL-Library.Sublist"
begin

section \<open>Python values used by \<^verbatim>\<open>server.py\<close>\<close>

text \<open>
  A Python \<^verbatim>\<open>str\<close> is a sequence of code points. The model's \<^typ>\<open>string\<close> is a list of
  \<^typ>\<open>char\<close>, read as code points below 256; every function below does on such a string what
  Python does on the same \<^verbatim>\<open>str\<close>. Strings with code points from 256 on, and floats, are
  outside the model.
\<close>

text \<open>\<^verbatim>\<open>str.isspace\<close> on one code point below 256.\<close>

definition is_space :: "char \<Rightarrow> bool" where
  "is_space c = (c \<in> set [CHR 0x09, CHR 0x0A, CHR 0x0B, CHR 0x0C, CHR 0x0D, CHR 0x1C, CHR 0x1D,
                           CHR 0x1E, CHR 0x1F, CHR '' '', CHR 0x85, CHR 0xA0])"

text \<open>\<^verbatim>\<open>s.strip()\<close>, and \<^verbatim>\<open>s.lstrip(cs)\<close>, \<^verbatim>\<open>s.rstrip(cs)\<close> with an explicit character set.\<close>

definition strip :: "string \<Rightarrow> string" where
  "strip s = rev (dropWhile is_space (rev (dropWhile is_space s)))"

definition lstrip_chars :: "string \<Rightarrow> string \<Rightarrow> string" where
  "lstrip_chars cs s = dropWhile (\<lambda>c. c \<in> set cs) s"

definition rstrip_chars :: "string \<Rightarrow> string \<Rightarrow> string" where
  "rstrip_chars cs s = rev (dropWhile (\<lambda>c. c \<in> set cs) (rev s))"

text \<open>\<^verbatim>\<open>s.upper()\<close>; the model maps the letters a to z only, which is Python's result on ASCII
  strings (the only methods passed are the literals GET and POST).\<close>

definition upper_char :: "char \<Rightarrow> char" where
  "upper_char c = (let n = (of_char c :: nat) in if 97 \<le> n \<and> n \<le> 122 then char_of (n - 32) else c)"

definition upper :: "string \<Rightarrow> string" where
  "upper s = map upper_char s"

text \<open>\<^verbatim>\<open>sep.join(xs)\<close>.\<close>

fun join :: "string \<Rightarrow> string list \<Rightarrow> string" where
  "join sep [] = []"
| "join sep [x] = x"
| "join sep (x # y # ys) = x @ sep @ join sep (y # ys)"

text \<open>Decimal rendering of integers, as \<^verbatim>\<open>str(n)\<close> gives it.\<close>

definition digit_char :: "nat \<Rightarrow> char" where
  "digit_char n = ''0123456789'' ! (n mod 10)"

fun str_nat :: "nat \<Rightarrow> string" where
  "str_nat n = (if n < 10 then [digit_char n] else str_nat (n div 10) @ [digit_char n])"

declare str_nat.simps [simp del]

definition str_int :: "int \<Rightarrow> string" where
  "str_int i = (if i < 0 then CHR ''-'' # str_nat (nat (- i)) else str_nat (nat i))"

text \<open>Two hexadecimal digits of a byte, upper case (\<^verbatim>\<open>'%{:02X}'\<close>) and lower case
  (\<^verbatim>\<open>'\x%02x'\<close>).\<close>

definition hex_upper :: "nat \<Rightarrow> string" where
  "hex_upper b = [''0123456789ABCDEF'' ! ((b div 16) mod 16), ''0123456789ABCDEF'' ! (b mod 16)]"

definition hex_lower :: "nat \<Rightarrow> string" where
  "hex_lower b = [''0123456789abcdef'' ! ((b div 16) mod 16), ''0123456789abcdef'' ! (b mod 16)]"

text \<open>
  The dynamically typed values the tools receive and the JSON values the upstream returns. A
  \<^verbatim>\<open>dict\<close> is an association list in insertion order; its keys are strings.
\<close>

datatype pyval =
    PNone
  | PBool bool
  | PInt int
  | PStr string
  | PList "pyval list"
  | PTuple "pyval list"
  | PDict "(string \<times> pyval) list"

type_synonym dict = "(string \<times> pyval) list"

text \<open>Truth value of an object (\<^verbatim>\<open>if x:\<close>).\<close>

fun truthy :: "pyval \<Rightarrow> bool" where
  "truthy PNone = False"
| "truthy (PBool b) = b"
| "truthy (PInt n) = (n \<noteq> 0)"
| "truthy (PStr s) = (s \<noteq> [])"
| "truthy (PList xs) = (xs \<noteq> [])"
| "truthy (PTuple xs) = (xs \<noteq> [])"
| "truthy (PDict kvs) = (kvs \<noteq> [])"

text \<open>\<^verbatim>\<open>isinstance(x, str)\<close>, \<^verbatim>\<open>isinstance(x, (list, tuple))\<close>, \<^verbatim>\<open>isinstance(x, int)\<close> (a
  \<^verbatim>\<open>bool\<close> is an \<^verbatim>\<open>int\<close> in Python) and \<^verbatim>\<open>isinstance(x, dict)\<close>.\<close>

fun isinstance_str :: "pyval \<Rightarrow> bool" where
  "isinstance_str (PStr s) = True"
| "isinstance_str v = False"

fun isinstance_list_tuple :: "pyval \<Rightarrow> bool" where
  "isinstance_list_tuple (PList xs) = True"
| "isinstance_list_tuple (PTuple xs) = True"
| "isinstance_list_tuple v = False"

fun isinstance_int :: "pyval \<Rightarrow> bool" where
  "isinstance_int (PInt n) = True"
| "isinstance_int (PBool b) = True"
| "isinstance_int v = False"

fun isinstance_dict :: "pyval \<Rightarrow> bool" where
  "isinstance_dict (PDict kvs) = True"
| "isinstance_dict v = False"

text \<open>The characters of a value known to be a \<^verbatim>\<open>str\<close>, the items of a list or tuple, the
  number behind an \<^verbatim>\<open>int\<close> (\<^verbatim>\<open>int(x)\<close>, \<^verbatim>\<open>x < 0\<close>). Each is read only behind the matching
  \<^verbatim>\<open>isinstance\<close> test.\<close>

fun str_of :: "pyval \<Rightarrow> string" where
  "str_of (PStr s) = s"
| "str_of v = []"

fun items_of :: "pyval \<Rightarrow> pyval list" where
  "items_of (PList xs) = xs"
| "items_of (PTuple xs) = xs"
| "items_of v = []"

fun int_of :: "pyval \<Rightarrow> int" where
  "int_of (PInt n) = n"
| "int_of (PBool b) = (if b then 1 else 0)"
| "int_of v = 0"

text \<open>\<^verbatim>\<open>d[k] = v\<close> and \<^verbatim>\<open>d.get(k)\<close> on a \<^verbatim>\<open>dict\<close>.\<close>

fun dict_set :: "('k \<times> 'v) list \<Rightarrow> 'k \<Rightarrow> 'v \<Rightarrow> ('k \<times> 'v) list" where
  "dict_set [] k v = [(k, v)]"
| "dict_set ((k', v') # d) k v = (if k' = k then (k, v) # d else (k', v') # dict_set d k v)"

definition dict_get :: "('k \<times> 'v) list \<Rightarrow> 'k \<Rightarrow> 'v option" where
  "dict_get d k = map_of d k"

subsection \<open>\<^verbatim>\<open>repr\<close> and \<^verbatim>\<open>str\<close>\<close>

text \<open>\<^verbatim>\<open>repr\<close> of a \<^verbatim>\<open>str\<close>: double quotes when the string has a single quote and no double
  quote, single quotes otherwise; the backslash and the quote escaped; tab, newline and
  carriage return by letter, every other non-printable code point as \<^verbatim>\<open>\xNN\<close>.\<close>

definition printable :: "char \<Rightarrow> bool" where
  "printable c = (let n = (of_char c :: nat) in (32 \<le> n \<and> n < 127) \<or> (160 < n \<and> n \<noteq> 173))"

definition repr_char :: "char \<Rightarrow> char \<Rightarrow> string" where
  "repr_char q c =
     (if c = q \<or> c = CHR 0x5C then [CHR 0x5C, c]
      else if c = CHR 0x09 then [CHR 0x5C, CHR ''t'']
      else if c = CHR 0x0A then [CHR 0x5C, CHR ''n'']
      else if c = CHR 0x0D then [CHR 0x5C, CHR ''r'']
      else if printable c then [c]
      else [CHR 0x5C, CHR ''x''] @ hex_lower (of_char c))"

definition repr_str :: "string \<Rightarrow> string" where
  "repr_str s =
     (let q = (if CHR 0x27 \<in> set s \<and> CHR 0x22 \<notin> set s then CHR 0x22 else CHR 0x27)
      in [q] @ concat (map (repr_char q) s) @ [q])"

fun py_repr :: "pyval \<Rightarrow> string"
  and repr_items :: "pyval list \<Rightarrow> string list"
  and repr_pairs :: "(string \<times> pyval) list \<Rightarrow> string list" where
  "py_repr PNone = ''None''"
| "py_repr (PBool b) = (if b then ''True'' else ''False'')"
| "py_repr (PInt n) = str_int n"
| "py_repr (PStr s) = repr_str s"
| "py_repr (PList xs) = ''['' @ join '', '' (repr_items xs) @ '']''"
| "py_repr (PTuple xs) =
     (if length xs = 1 then ''('' @ join '', '' (repr_items xs) @ '',)''
      else ''('' @ join '', '' (repr_items xs) @ '')'')"
| "py_repr (PDict kvs) = ''{'' @ join '', '' (repr_pairs kvs) @ ''}''"
| "repr_items [] = []"
| "repr_items (x # xs) = py_repr x # repr_items xs"
| "repr_pairs [] = []"
| "repr_pairs ((k, v) # kvs) = (repr_str k @ '': '' @ py_repr v) # repr_pairs kvs"

text \<open>\<^verbatim>\<open>str(x)\<close>, which is also what an f-string field \<^verbatim>\<open>{x}\<close> renders.\<close>

fun py_str :: "pyval \<Rightarrow> string" where
  "py_str (PStr s) = s"
| "py_str v = py_repr v"

subsection \<open>\<^verbatim>\<open>json.dumps(data, ensure_ascii=False)\<close>\<close>

definition json_char :: "char \<Rightarrow> string" where
  "json_char c =
     (if c = CHR 0x22 then [CHR 0x5C, CHR 0x22]
      else if c = CHR 0x5C then [CHR 0x5C, CHR 0x5C]
      else if c = CHR 0x0A then [CHR 0x5C, CHR ''n'']
      else if c = CHR 0x0D then [CHR 0x5C, CHR ''r'']
      else if c = CHR 0x09 then [CHR 0x5C, CHR ''t'']
      else if c = CHR 0x08 then [CHR 0x5C, CHR ''b'']
      else if c = CHR 0x0C then [CHR 0x5C, CHR ''f'']
      else if (of_char c :: nat) < 32 then [CHR 0x5C, CHR ''u'', CHR ''0'', CHR ''0''] @ hex_lower (of_char c)
      else [c])"

definition json_str :: "string \<Rightarrow> string" where
  "json_str s = [CHR 0x22] @ concat (map json_char s) @ [CHR 0x22]"

fun json_dumps :: "pyval \<Rightarrow> string"
  and dumps_items :: "pyval list \<Rightarrow> string list"
  and dumps_pairs :: "(string \<times> pyval) list \<Rightarrow> string list" where
  "json_dumps PNone = ''null''"
| "json_dumps (PBool b) = (if b then ''true'' else ''false'')"
| "json_dumps (PInt n) = str_int n"
| "json_dumps (PStr s) = json_str s"
| "json_dumps (PList xs) = ''['' @ join '', '' (dumps_items xs) @ '']''"
| "json_dumps (PTuple xs) = ''['' @ join '', '' (dumps_items xs) @ '']''"
| "json_dumps (PDict kvs) = ''{'' @ join '', '' (dumps_pairs kvs) @ ''}''"
| "dumps_items [] = []"
| "dumps_items (x # xs) = json_dumps x # dumps_items xs"
| "dumps_pairs [] = []"
| "dumps_pairs ((k, v) # kvs) = (json_str k @ '': '' @ json_dumps v) # dumps_pairs kvs"

subsection \<open>\<^verbatim>\<open>urllib.parse.quote(s)\<close> with its default \<^verbatim>\<open>safe='/'\<close>\<close>

text \<open>Letters, digits and \<^verbatim>\<open>_.-~/\<close> stay; every other code point is encoded in UTF-8 (one
  byte below 128, two bytes from 128 to 255) and each byte written \<^verbatim>\<open>%XX\<close>.\<close>

definition quote_safe :: "char \<Rightarrow> bool" where
  "quote_safe c =
     (let n = (of_char c :: nat)
      in (65 \<le> n \<and> n \<le> 90) \<or> (97 \<le> n \<and> n \<le> 122) \<or> (48 \<le> n \<and> n \<le> 57) \<or> c \<in> set ''_.-~/'')"

definition utf8 :: "char \<Rightarrow> nat list" where
  "utf8 c = (let n = (of_char c :: nat) in if n < 128 then [n] else [192 + n div 64, 128 + n mod 64])"

definition quote_char :: "char \<Rightarrow> string" where
  "quote_char c = (if quote_safe c then [c] else concat (map (\<lambda>b. CHR ''%'' # hex_upper b) (utf8 c)))"

definition quote :: "string \<Rightarrow> string" where
  "quote s = concat (map quote_char s)"

section \<open>The request gateway\<close>

text \<open>
  Names are those of \<^verbatim>\<open>server.py\<close>, with two changes forced by the logic: the leading
  underscore of \<^verbatim>\<open>_BASE_URL\<close>, \<^verbatim>\<open>_load_api_key\<close>, \<^verbatim>\<open>_request_json\<close> and
  \<^verbatim>\<open>_normalize_fields\<close> is dropped, and the parameters \<^verbatim>\<open>fields\<close> and \<^verbatim>\<open>sort\<close> are written
  \<open>flds\<close> and \<open>sort_by\<close>. A default argument of the source is an explicit argument here.
\<close>

text \<open>
  The world a call runs in: the environment variable \<^verbatim>\<open>SEMANTIC_SCHOLAR_API_KEY\<close>
  (\<^verbatim>\<open>os.getenv\<close>), the file \<^verbatim>\<open>config.yaml\<close> beside the script, the upstream service as
  \<^verbatim>\<open>requests.request\<close> sees it (an answer, or an exception of the HTTP client), and the log of
  the requests sent so far. Nothing else is state: the module keeps no variable between calls.
\<close>

datatype config_file =
    Missing \<comment> \<open>\<^verbatim>\<open>os.path.exists\<close> is false\<close>
  | Unreadable \<comment> \<open>\<^verbatim>\<open>open\<close> or \<^verbatim>\<open>yaml.safe_load\<close> raises\<close>
  | Loaded pyval \<comment> \<open>what \<^verbatim>\<open>yaml.safe_load\<close> returns\<close>

record request =
  req_method :: string
  req_url :: string
  req_params :: "dict option"
  req_json :: "dict option"
  req_headers :: "(string \<times> string) list"
  req_timeout :: nat

record response =
  status_code :: int
  resp_text :: string
  resp_json :: "pyval option" \<comment> \<open>\<^verbatim>\<open>resp.json()\<close>; \<open>None\<close> when it raises\<close>

record world =
  env_key :: "string option"
  config_yaml :: config_file
  upstream :: "request \<Rightarrow> string + response"
  sent :: "request list"

datatype error =
    ValueError string
  | RuntimeError string
  | RequestException string \<comment> \<open>raised by \<^verbatim>\<open>requests.request\<close> itself (timeout, no connection)\<close>

definition BASE_URL :: string where
  "BASE_URL = ''https://api.semanticscholar.org/graph/v1''"

fun dict_of :: "pyval \<Rightarrow> dict" where
  "dict_of (PDict kvs) = kvs"
| "dict_of v = []"

text \<open>The part of \<^verbatim>\<open>_load_api_key\<close> inside \<^verbatim>\<open>if os.path.exists(cfg_path)\<close>. The module imports
  \<^verbatim>\<open>yaml\<close> unconditionally, so \<^verbatim>\<open>yaml is not None\<close> holds whenever the function runs.\<close>

definition config_api_key :: "config_file \<Rightarrow> string option" where
  "config_api_key cfg =
     (case cfg of
        Missing \<Rightarrow> None
      | Unreadable \<Rightarrow> None
      | Loaded v \<Rightarrow>
          (let data = (if truthy v then v else PDict []);
               key = (if isinstance_dict data
                      then (case dict_get (dict_of data) ''semantic_scholar'' of
                              Some k \<Rightarrow> k | None \<Rightarrow> PDict [])
                      else PDict []);
               api_key = (if isinstance_dict key
                          then (case dict_get (dict_of key) ''api_key'' of
                                  Some a \<Rightarrow> a | None \<Rightarrow> PNone)
                          else PNone)
           in if truthy api_key then Some (strip (py_str api_key)) else None))"

definition load_api_key :: "world \<Rightarrow> string option" where
  "load_api_key w =
     (case env_key w of
        Some e \<Rightarrow> if e \<noteq> [] then Some (strip e) else config_api_key (config_yaml w)
      | None \<Rightarrow> config_api_key (config_yaml w))"

text \<open>The arguments \<^verbatim>\<open>_request_json\<close> hands to \<^verbatim>\<open>requests.request\<close>.\<close>

definition build_url :: "string \<Rightarrow> string" where
  "build_url path = rstrip_chars ''/'' BASE_URL @ ''/'' @ lstrip_chars ''/'' path"

definition build_headers :: "world \<Rightarrow> (string \<times> string) list" where
  "build_headers w =
     (let headers = [(''Accept'', ''application/json'')]
      in case load_api_key w of
           None \<Rightarrow> headers
         | Some api_key \<Rightarrow> if api_key \<noteq> [] then dict_set headers ''x-api-key'' api_key else headers)"

definition build_request :: "string \<Rightarrow> string \<Rightarrow> dict option \<Rightarrow> dict option \<Rightarrow> world \<Rightarrow> request" where
  "build_request meth path params json_body w =
     \<lparr>req_method = upper meth, req_url = build_url path, req_params = params,
      req_json = json_body, req_headers = build_headers w, req_timeout = 30\<rparr>"

text \<open>\<^verbatim>\<open>_request_json\<close>. The test \<^verbatim>\<open>requests is None\<close> cannot succeed (the module imports
  \<^verbatim>\<open>requests\<close> unconditionally) and has no branch here.\<close>

definition request_json ::
  "string \<Rightarrow> string \<Rightarrow> dict option \<Rightarrow> dict option \<Rightarrow> world \<Rightarrow> (error + pyval) \<times> world" where
  "request_json meth path params json_body w =
     (let req = build_request meth path params json_body w;
          w' = w\<lparr>sent := sent w @ [req]\<rparr>
      in case upstream w req of
           Inl exn \<Rightarrow> (Inl (RequestException exn), w')
         | Inr resp \<Rightarrow>
             if \<not> (200 \<le> status_code resp \<and> status_code resp < 300) then
               (let payload = (case resp_json resp of
                                 Some v \<Rightarrow> v
                               | None \<Rightarrow> PDict [(''message'', PStr (resp_text resp))])
                in (Inl (RuntimeError (''Semantic Scholar API error '' @ str_int (status_code resp)
                                        @ '' for '' @ req_url req @ '': '' @ py_str payload)), w'))
             else (case resp_json resp of
                     Some v \<Rightarrow> (Inr v, w')
                   | None \<Rightarrow> (Inr (PDict [(''raw'', PStr (resp_text resp))]), w')))"

text \<open>\<^verbatim>\<open>_normalize_fields\<close>. Iterating a \<^verbatim>\<open>dict\<close> yields its keys; iterating \<^verbatim>\<open>True\<close> or a
  number raises \<^verbatim>\<open>TypeError\<close>, which the function catches.\<close>

definition join_or_none :: "pyval list \<Rightarrow> string option" where
  "join_or_none xs =
     (let joined = join '','' (filter (\<lambda>s. s \<noteq> []) (map (\<lambda>f. strip (py_str f)) xs))
      in if joined \<noteq> [] then Some joined else None)"

definition normalize_fields :: "pyval \<Rightarrow> string option" where
  "normalize_fields flds =
     (case flds of
        PNone \<Rightarrow> None
      | PStr s \<Rightarrow> Some s
      | PList xs \<Rightarrow> join_or_none xs
      | PTuple xs \<Rightarrow> join_or_none xs
      | PDict kvs \<Rightarrow> join_or_none (map (\<lambda>kv. PStr (fst kv)) kvs)
      | PBool b \<Rightarrow> None
      | PInt n \<Rightarrow> None)"

section \<open>The tools\<close>

text \<open>Three steps every tool shares: \<^verbatim>\<open>if norm: d[k] = norm\<close> for a normalised selector, the
  loop that checks and strips the items of a list, and the closing
  \<^verbatim>\<open>return json.dumps(data, ensure_ascii=False)\<close>.\<close>

definition put_truthy :: "dict \<Rightarrow> string \<Rightarrow> string option \<Rightarrow> dict" where
  "put_truthy d k v = (case v of None \<Rightarrow> d | Some s \<Rightarrow> if s \<noteq> [] then dict_set d k (PStr s) else d)"

fun clean_loop :: "string \<Rightarrow> string list \<Rightarrow> pyval list \<Rightarrow> error + string list" where
  "clean_loop msg acc [] = Inr acc"
| "clean_loop msg acc (x # xs) =
     (if \<not> isinstance_str x \<or> strip (str_of x) = [] then Inl (ValueError msg)
      else clean_loop msg (acc @ [strip (str_of x)]) xs)"

definition dumps_result :: "(error + pyval) \<times> world \<Rightarrow> (error + string) \<times> world" where
  "dumps_result r = (case r of (Inl e, w) \<Rightarrow> (Inl e, w) | (Inr data, w) \<Rightarrow> (Inr (json_dumps data), w))"

text \<open>\<^verbatim>\<open>max(1, min(int(limit), hi))\<close> and \<^verbatim>\<open>max(0, int(offset))\<close> on integers.\<close>

definition clamp_limit :: "int \<Rightarrow> int \<Rightarrow> int" where
  "clamp_limit limit hi = max 1 (min limit hi)"

definition clamp_offset :: "int \<Rightarrow> int" where
  "clamp_offset offset = max 0 offset"

definition get_paper :: "pyval \<Rightarrow> pyval \<Rightarrow> world \<Rightarrow> (error + string) \<times> world" where
  "get_paper paper_id flds w =
     (if \<not> isinstance_str paper_id \<or> strip (str_of paper_id) = [] then
        (Inl (ValueError ''Parameter 'paper_id' must be a non-empty string.''), w)
      else
        (let params = put_truthy [] ''fields'' (normalize_fields flds)
         in dumps_result (request_json ''GET'' (''/paper/'' @ quote (strip (str_of paper_id)))
                            (Some params) None w)))"

definition get_papers_batch :: "pyval \<Rightarrow> pyval \<Rightarrow> world \<Rightarrow> (error + string) \<times> world" where
  "get_papers_batch paper_ids flds w =
     (if \<not> isinstance_list_tuple paper_ids \<or> length (items_of paper_ids) = 0 then
        (Inl (ValueError ''Parameter 'paper_ids' must be a non-empty list of strings.''), w)
      else if length (items_of paper_ids) > 1000 then
        (Inl (ValueError ''Parameter 'paper_ids' cannot exceed 1000 items per request.''), w)
      else
        (case clean_loop ''Every item in 'paper_ids' must be a non-empty string.'' []
                (items_of paper_ids) of
           Inl e \<Rightarrow> (Inl e, w)
         | Inr clean_ids \<Rightarrow>
             (let body = [(''ids'', PList (map PStr clean_ids))];
                  body = put_truthy body ''fields'' (normalize_fields flds)
              in dumps_result (request_json ''POST'' ''/paper/batch'' None (Some body) w))))"

definition search_papers ::
  "pyval \<Rightarrow> pyval \<Rightarrow> int \<Rightarrow> int \<Rightarrow> pyval \<Rightarrow> pyval \<Rightarrow> pyval \<Rightarrow> world \<Rightarrow> (error + string) \<times> world" where
  "search_papers query flds limit offset year open_access_pdf fields_of_study w =
     (let params = [(''query'', query),
                    (''limit'', PInt (clamp_limit limit 100)),
                    (''offset'', PInt (clamp_offset offset))];
          params = put_truthy params ''fields'' (normalize_fields flds);
          params = (if truthy year then dict_set params ''year'' (PStr (py_str year)) else params);
          params = (if open_access_pdf \<noteq> PNone
                    then dict_set params ''openAccessPdf''
                           (PStr (if truthy open_access_pdf then ''true'' else ''false''))
                    else params);
          params = put_truthy params ''fieldsOfStudy'' (normalize_fields fields_of_study)
      in dumps_result (request_json ''GET'' ''/paper/search'' (Some params) None w))"

definition search_papers_bulk ::
  "pyval \<Rightarrow> pyval \<Rightarrow> int \<Rightarrow> int \<Rightarrow> world \<Rightarrow> (error + string) \<times> world" where
  "search_papers_bulk queries flds limit offset w =
     (if \<not> isinstance_list_tuple queries \<or> length (items_of queries) = 0 then
        (Inl (ValueError ''Parameter 'queries' must be a non-empty list of strings.''), w)
      else if length (items_of queries) > 100 then
        (Inl (ValueError ''Parameter 'queries' cannot exceed 100 items.''), w)
      else
        (case clean_loop ''Every item in 'queries' must be a non-empty string.'' []
                (items_of queries) of
           Inl e \<Rightarrow> (Inl e, w)
         | Inr clean_q \<Rightarrow>
             (let body = [(''queries'', PList (map PStr clean_q)),
                          (''limit'', PInt (clamp_limit limit 100)),
                          (''offset'', PInt (clamp_offset offset))];
                  body = put_truthy body ''fields'' (normalize_fields flds)
              in dumps_result (request_json ''POST'' ''/paper/search/bulk'' None (Some body) w))))"

definition search_papers_match ::
  "pyval \<Rightarrow> pyval \<Rightarrow> pyval \<Rightarrow> pyval \<Rightarrow> pyval \<Rightarrow> int \<Rightarrow> world \<Rightarrow> (error + string) \<times> world" where
  "search_papers_match title authors year venue flds limit w =
     (if \<not> isinstance_str title \<or> strip (str_of title) = [] then
        (Inl (ValueError ''Parameter 'title' must be a non-empty string.''), w)
      else if year \<noteq> PNone \<and> (\<not> isinstance_int year \<or> int_of year < 0) then
        (Inl (ValueError ''Parameter 'year' must be a non-negative integer if provided.''), w)
      else
        (let body = [(''title'', PStr (strip (str_of title))),
                     (''limit'', PInt (clamp_limit limit 20))];
             body = put_truthy body ''authors'' (normalize_fields authors);
             body = (if year \<noteq> PNone then dict_set body ''year'' (PInt (int_of year)) else body);
             body = (if truthy venue then dict_set body ''venue'' (PStr (py_str venue)) else body);
             body = put_truthy body ''fields'' (normalize_fields flds)
         in dumps_result (request_json ''POST'' ''/paper/search/match'' None (Some body) w)))"

definition paper_autocomplete :: "pyval \<Rightarrow> int \<Rightarrow> world \<Rightarrow> (error + string) \<times> world" where
  "paper_autocomplete query limit w =
     (if \<not> isinstance_str query \<or> strip (str_of query) = [] then
        (Inl (ValueError ''Parameter 'query' must be a non-empty string.''), w)
      else
        (let params = [(''query'', PStr (strip (str_of query))),
                       (''limit'', PInt (clamp_limit limit 100))]
         in dumps_result (request_json ''GET'' ''/paper/autocomplete'' (Some params) None w)))"

definition get_paper_authors :: "pyval \<Rightarrow> pyval \<Rightarrow> int \<Rightarrow> int \<Rightarrow> world \<Rightarrow> (error + string) \<times> world" where
  "get_paper_authors paper_id flds limit offset w =
     (if \<not> isinstance_str paper_id \<or> strip (str_of paper_id) = [] then
        (Inl (ValueError ''Parameter 'paper_id' must be a non-empty string.''), w)
      else
        (let params = [(''limit'', PInt (clamp_limit limit 100)),
                       (''offset'', PInt (clamp_offset offset))];
             params = put_truthy params ''fields'' (normalize_fields flds)
         in dumps_result (request_json ''GET'' (''/paper/'' @ quote (strip (str_of paper_id)) @ ''/authors'')
                            (Some params) None w)))"

definition get_paper_citations :: "pyval \<Rightarrow> pyval \<Rightarrow> int \<Rightarrow> int \<Rightarrow> world \<Rightarrow> (error + string) \<times> world" where
  "get_paper_citations paper_id flds limit offset w =
     (if \<not> isinstance_str paper_id \<or> strip (str_of paper_id) = [] then
        (Inl (ValueError ''Parameter 'paper_id' must be a non-empty string.''), w)
      else
        (let params = [(''limit'', PInt (clamp_limit limit 100)),
                       (''offset'', PInt (clamp_offset offset))];
             params = put_truthy params ''fields'' (normalize_fields flds)
         in dumps_result (request_json ''GET'' (''/paper/'' @ quote (strip (str_of paper_id)) @ ''/citations'')
                            (Some params) None w)))"

definition get_paper_references :: "pyval \<Rightarrow> pyval \<Rightarrow> int \<Rightarrow> int \<Rightarrow> world \<Rightarrow> (error + string) \<times> world" where
  "get_paper_references paper_id flds limit offset w =
     (if \<not> isinstance_str paper_id \<or> strip (str_of paper_id) = [] then
        (Inl (ValueError ''Parameter 'paper_id' must be a non-empty string.''), w)
      else
        (let params = [(''limit'', PInt (clamp_limit limit 100)),
                       (''offset'', PInt (clamp_offset offset))];
             params = put_truthy params ''fields'' (normalize_fields flds)
         in dumps_result (request_json ''GET'' (''/paper/'' @ quote (strip (str_of paper_id)) @ ''/references'')
                            (Some params) None w)))"

definition get_author :: "pyval \<Rightarrow> pyval \<Rightarrow> world \<Rightarrow> (error + string) \<times> world" where
  "get_author author_id flds w =
     (if \<not> isinstance_str author_id \<or> strip (str_of author_id) = [] then
        (Inl (ValueError ''Parameter 'author_id' must be a non-empty string.''), w)
      else
        (let params = put_truthy [] ''fields'' (normalize_fields flds)
         in dumps_result (request_json ''GET'' (''/author/'' @ quote (strip (str_of author_id)))
                            (Some params) None w)))"

definition get_authors_batch :: "pyval \<Rightarrow> pyval \<Rightarrow> world \<Rightarrow> (error + string) \<times> world" where
  "get_authors_batch author_ids flds w =
     (if \<not> isinstance_list_tuple author_ids \<or> length (items_of author_ids) = 0 then
        (Inl (ValueError ''Parameter 'author_ids' must be a non-empty list of strings.''), w)
      else if length (items_of author_ids) > 1000 then
        (Inl (ValueError ''Parameter 'author_ids' cannot exceed 1000 items.''), w)
      else
        (case clean_loop ''Every item in 'author_ids' must be a non-empty string.'' []
                (items_of author_ids) of
           Inl e \<Rightarrow> (Inl e, w)
         | Inr clean_ids \<Rightarrow>
             (let body = [(''ids'', PList (map PStr clean_ids))];
                  body = put_truthy body ''fields'' (normalize_fields flds)
              in dumps_result (request_json ''POST'' ''/author/batch'' None (Some body) w))))"

definition search_authors :: "pyval \<Rightarrow> pyval \<Rightarrow> int \<Rightarrow> int \<Rightarrow> world \<Rightarrow> (error + string) \<times> world" where
  "search_authors query flds limit offset w =
     (if \<not> isinstance_str query \<or> strip (str_of query) = [] then
        (Inl (ValueError ''Parameter 'query' must be a non-empty string.''), w)
      else
        (let params = [(''query'', PStr (strip (str_of query))),
                       (''limit'', PInt (clamp_limit limit 100)),
                       (''offset'', PInt (clamp_offset offset))];
             params = put_truthy params ''fields'' (normalize_fields flds)
         in dumps_result (request_json ''GET'' ''/author/search'' (Some params) None w)))"

definition get_author_papers ::
  "pyval \<Rightarrow> pyval \<Rightarrow> int \<Rightarrow> int \<Rightarrow> pyval \<Rightarrow> world \<Rightarrow> (error + string) \<times> world" where
  "get_author_papers author_id flds limit offset sort_by w =
     (if \<not> isinstance_str author_id \<or> strip (str_of author_id) = [] then
        (Inl (ValueError ''Parameter 'author_id' must be a non-empty string.''), w)
      else
        (let params = [(''limit'', PInt (clamp_limit limit 100)),
                       (''offset'', PInt (clamp_offset offset))];
             params = (if truthy sort_by then dict_set params ''sort'' (PStr (py_str sort_by)) else params);
             params = put_truthy params ''fields'' (normalize_fields flds)
         in dumps_result (request_json ''GET'' (''/author/'' @ quote (strip (str_of author_id)) @ ''/papers'')
                            (Some params) None w)))"

definition snippet_search ::
  "pyval \<Rightarrow> pyval \<Rightarrow> int \<Rightarrow> int \<Rightarrow> pyval \<Rightarrow> world \<Rightarrow> (error + string) \<times> world" where
  "snippet_search query flds limit offset fields_of_study w =
     (if \<not> isinstance_str query \<or> strip (str_of query) = [] then
        (Inl (ValueError ''Parameter 'query' must be a non-empty string.''), w)
      else
        (let params = [(''query'', PStr (strip (str_of query))),
                       (''limit'', PInt (clamp_limit limit 100)),
                       (''offset'', PInt (clamp_offset offset))];
             params = put_truthy params ''fields'' (normalize_fields flds);
             params = put_truthy params ''fieldsOfStudy'' (normalize_fields fields_of_study)
         in dumps_result (request_json ''GET'' ''/snippet/search'' (Some params) None w)))"

subsection \<open>Default arguments\<close>

definition get_papers_batch_fields :: pyval where
  "get_papers_batch_fields = PStr ''title,authors,year,venue,externalIds,url''"

definition search_papers_fields :: pyval where
  "search_papers_fields = PStr ''title,authors,year,venue,externalIds,url''"

definition search_papers_limit :: int where
  "search_papers_limit = 25"

definition search_papers_offset :: int where
  "search_papers_offset = 0"

section \<open>Observing a call\<close>

text \<open>The requests a call started in world \<open>w\<close> has sent, and the entries of one request's query
  parameters and JSON body.\<close>

definition issued :: "world \<Rightarrow> 'a \<times> world \<Rightarrow> request list" where
  "issued w r = drop (length (sent w)) (sent (snd r))"

definition param_of :: "request \<Rightarrow> string \<Rightarrow> pyval option" where
  "param_of r k = (case req_params r of None \<Rightarrow> None | Some d \<Rightarrow> dict_get d k)"

definition body_of :: "request \<Rightarrow> string \<Rightarrow> pyval option" where
  "body_of r k = (case req_json r of None \<Rightarrow> None | Some d \<Rightarrow> dict_get d k)"

text \<open>A world for concrete runs: no credential anywhere, an upstream that answers every request
  with status \<open>status\<close>, body \<open>body\<close> and the decoding \<open>decoded\<close> of that body.\<close>

definition answering :: "int \<Rightarrow> string \<Rightarrow> pyval option \<Rightarrow> world" where
  "answering status body decoded =
     \<lparr>env_key = None, config_yaml = Missing,
      upstream = (\<lambda>r. Inr \<lparr>status_code = status, resp_text = body, resp_json = decoded\<rparr>),
      sent = []\<rparr>"

text \<open>The upstream of the rate-limit scenario: status 429 with a JSON error body.\<close>

definition rate_limited :: world where
  \<open>rate_limited =
     answering 429 ''{"message":"rate limited"}'' (Some (PDict [(''message'', PStr ''rate limited'')]))\<close>

section \<open>Basic facts\<close>

lemma sent_request_json:
  "sent (snd (request_json meth path params body w)) = sent w @ [build_request meth path params body w]"
  by (simp add: request_json_def Let_def split: sum.split option.split)

lemma snd_dumps_result: "snd (dumps_result r) = snd r"
  by (simp add: dumps_result_def split: prod.split sum.split)

lemma issued_unchanged: "issued w (x, w) = []"
  by (simp add: issued_def)


lemma issued_dumps_result:
  "issued w (dumps_result (request_json meth path params body w)) = [build_request meth path params body w]"
  by (simp add: issued_def snd_dumps_result sent_request_json)

lemma fst_dumps_result_Inl: "fst r = Inl e \<Longrightarrow> fst (dumps_result r) = Inl e"
  by (cases r) (simp add: dumps_result_def)

lemma sublist_mid: "sublist b (a @ b @ c)"
  by (auto simp: sublist_def)

lemma build_request_sel [simp]:
  "req_method (build_request meth path params body w) = upper meth"
  "req_url (build_request meth path params body w) = build_url path"
  "req_params (build_request meth path params body w) = params"
  "req_json (build_request meth path params body w) = body"
  "req_headers (build_request meth path params body w) = build_headers w"
  "req_timeout (build_request meth path params body w) = 30"
  by (simp_all add: build_request_def)

lemma upstream_answering [simp]:
  "upstream (answering st b d) r = Inr \<lparr>status_code = st, resp_text = b, resp_json = d\<rparr>"
  by (simp add: answering_def)

section \<open>The gateway's treatment of the upstream answer\<close>

text \<open>
  Claim C6. Whenever the upstream answers with a status code in [200,300), \<^verbatim>\<open>_request_json\<close>
  returns normally: the decoded JSON body when \<^verbatim>\<open>resp.json()\<close> succeeds, and otherwise the
  mapping \<^verbatim>\<open>{"raw": resp.text}\<close>; it does not raise.
\<close>

theorem success_parse_or_raw:
  assumes "upstream w (build_request meth path params body w) = Inr resp"
    and "200 \<le> status_code resp" and "status_code resp < 300"
  shows "fst (request_json meth path params body w) =
           Inr (case resp_json resp of
                  Some v \<Rightarrow> v
                | None \<Rightarrow> PDict [(''raw'', PStr (resp_text resp))])"
  using assms by (simp add: request_json_def Let_def split: option.split)

theorem success_parse_or_raw_witness:
  "upstream (answering 200 ''<html>'' None)
       (build_request ''GET'' ''/paper/x'' None None (answering 200 ''<html>'' None))
     = Inr \<lparr>status_code = 200, resp_text = ''<html>'', resp_json = None\<rparr>
   \<and> fst (request_json ''GET'' ''/paper/x'' None None (answering 200 ''<html>'' None))
     = Inr (PDict [(''raw'', PStr ''<html>'')])"
  using success_parse_or_raw [of "answering 200 ''<html>'' None" "''GET''" "''/paper/x''" None None
      "\<lparr>status_code = 200, resp_text = ''<html>'', resp_json = None\<rparr>"]
  by simp

text \<open>
  Claim C3. Whenever the upstream answers with a status code outside [200,300),
  \<^verbatim>\<open>_request_json\<close> raises a \<^verbatim>\<open>RuntimeError\<close> whose message is
  \<^verbatim>\<open>Semantic Scholar API error <status> for <url>: <payload>\<close>, where the payload is the decoded
  JSON body, or \<^verbatim>\<open>{"message": resp.text}\<close> when the body does not decode; so the message
  contains the status code, the request URL and the rendered payload. The witness is the
  scenario of the specification: on a 429 answer with body \<^verbatim>\<open>{"message":"rate limited"}\<close>,
  \<^verbatim>\<open>search_papers("quantum")\<close> fails with a message containing \<^verbatim>\<open>429\<close> and
  \<^verbatim>\<open>rate limited\<close>.
\<close>

theorem upstream_failure_message:
  assumes "upstream w (build_request meth path params body w) = Inr resp"
    and "\<not> (200 \<le> status_code resp \<and> status_code resp < 300)"
  shows "\<exists>msg payload.
           fst (request_json meth path params body w) = Inl (RuntimeError msg)
         \<and> payload = (case resp_json resp of
                         Some v \<Rightarrow> v
                       | None \<Rightarrow> PDict [(''message'', PStr (resp_text resp))])
         \<and> msg = ''Semantic Scholar API error '' @ str_int (status_code resp) @ '' for ''
                   @ build_url path @ '': '' @ py_str payload
         \<and> sublist (str_int (status_code resp)) msg
         \<and> sublist (build_url path) msg
         \<and> sublist (py_str payload) msg"
proof -
  let ?payload = "case resp_json resp of
                    Some v \<Rightarrow> v | None \<Rightarrow> PDict [(''message'', PStr (resp_text resp))]"
  let ?head = "''Semantic Scholar API error '' @ str_int (status_code resp) @ '' for ''"
  let ?msg = "''Semantic Scholar API error '' @ str_int (status_code resp) @ '' for ''
                @ build_url path @ '': '' @ py_str ?payload"
  have run: "fst (request_json meth path params body w) = Inl (RuntimeError ?msg)"
    using assms by (simp add: request_json_def Let_def split: option.split)
  have s1: "sublist (str_int (status_code resp)) ?msg"
    by (rule sublist_mid)
  have s2: "sublist (build_url path) ?msg"
    using sublist_mid [of "build_url path" ?head "'': '' @ py_str ?payload"]
    by (simp only: append_assoc)
  have s3: "sublist (py_str ?payload) ?msg"
    using sublist_mid [of "py_str ?payload" "?head @ build_url path @ '': ''" "[]"]
    by (simp only: append_assoc append_Nil2)
  show ?thesis
    by (intro exI [of _ ?msg] exI [of _ ?payload] conjI run refl s1 s2 s3)
qed

lemma str_int_429: "str_int 429 = ''429''"
  by code_simp

lemma build_url_paper_search:
  "build_url ''/paper/search'' = ''https://api.semanticscholar.org/graph/v1/paper/search''"
  by code_simp

lemma py_str_rate_limited:
  "py_str (PDict [(''message'', PStr ''rate limited'')]) = ''{'message': 'rate limited'}''"
  by code_simp

lemma rate_limited_message_has_status:
  "sublist ''429'' ''Semantic Scholar API error 429 for https://api.semanticscholar.org/graph/v1/paper/search: {'message': 'rate limited'}''"
  by code_simp

lemma rate_limited_message_has_text:
  "sublist ''rate limited'' ''Semantic Scholar API error 429 for https://api.semanticscholar.org/graph/v1/paper/search: {'message': 'rate limited'}''"
  by code_simp

theorem upstream_failure_message_witness:
  \<open>fst (search_papers (PStr ''quantum'') search_papers_fields search_papers_limit
          search_papers_offset PNone PNone PNone rate_limited)
     = Inl (RuntimeError ''Semantic Scholar API error 429 for https://api.semanticscholar.org/graph/v1/paper/search: {'message': 'rate limited'}'')
   \<and> sublist ''429'' ''Semantic Scholar API error 429 for https://api.semanticscholar.org/graph/v1/paper/search: {'message': 'rate limited'}''
   \<and> sublist ''rate limited'' ''Semantic Scholar API error 429 for https://api.semanticscholar.org/graph/v1/paper/search: {'message': 'rate limited'}''\<close>
proof -
  let ?resp = \<open>\<lparr>status_code = 429, resp_text = ''{"message":"rate limited"}'',
                 resp_json = Some (PDict [(''message'', PStr ''rate limited'')])\<rparr>\<close>
  have up: "upstream rate_limited (build_request ''GET'' ''/paper/search'' ps None rate_limited)
              = Inr ?resp" for ps
    by (simp add: rate_limited_def)
  have st: "\<not> (200 \<le> status_code ?resp \<and> status_code ?resp < 300)"
    by simp
  have "fst (request_json ''GET'' ''/paper/search'' ps None rate_limited)
          = Inl (RuntimeError ''Semantic Scholar API error 429 for https://api.semanticscholar.org/graph/v1/paper/search: {'message': 'rate limited'}'')" for ps
    using upstream_failure_message [OF up st, of ps]
    by (simp add: str_int_429 build_url_paper_search py_str_rate_limited
             del: py_str.simps py_repr.simps)
  then have "fst (search_papers (PStr ''quantum'') search_papers_fields search_papers_limit
                    search_papers_offset PNone PNone PNone rate_limited)
     = Inl (RuntimeError ''Semantic Scholar API error 429 for https://api.semanticscholar.org/graph/v1/paper/search: {'message': 'rate limited'}'')"
    by (simp add: search_papers_def Let_def fst_dumps_result_Inl)
  then show ?thesis
    using rate_limited_message_has_status rate_limited_message_has_text by simp
qed

section \<open>Facts about dictionaries and the item loop\<close>

lemma dict_get_dict_set: "dict_get (dict_set d k v) k' = (if k' = k then Some v else dict_get d k')"
  by (induction d) (auto simp: dict_get_def)

lemma dict_get_put_truthy_other: "k' \<noteq> k \<Longrightarrow> dict_get (put_truthy d k v) k' = dict_get d k'"
  by (simp add: put_truthy_def dict_get_dict_set split: option.split)

lemma dict_get_Cons: "dict_get ((k, v) # d) k' = (if k' = k then Some v else dict_get d k')"
  by (simp add: dict_get_def)

lemma dict_get_Nil: "dict_get [] k = None"
  by (simp add: dict_get_def)

lemmas dict_simps = dict_get_dict_set dict_get_put_truthy_other dict_get_Cons dict_get_Nil

lemma clamp_limit_range: "0 < hi \<Longrightarrow> 1 \<le> clamp_limit limit hi \<and> clamp_limit limit hi \<le> hi"
  by (auto simp: clamp_limit_def)

lemma clean_loop_ok:
  "list_all (\<lambda>x. isinstance_str x \<and> strip (str_of x) \<noteq> []) xs \<Longrightarrow>
   clean_loop msg acc xs = Inr (acc @ map (\<lambda>x. strip (str_of x)) xs)"
  by (induction xs arbitrary: acc) auto

lemma clean_loop_bad:
  "\<not> list_all (\<lambda>x. isinstance_str x \<and> strip (str_of x) \<noteq> []) xs \<Longrightarrow>
   clean_loop msg acc xs = Inl (ValueError msg)"
  by (induction xs arbitrary: acc) auto

lemma strip_quantum: "strip ''quantum'' = ''quantum''"
  by (simp add: strip_def is_space_def)

section \<open>Query parameters of the paper search\<close>

text \<open>
  Claim C10. In \<^verbatim>\<open>search_papers\<close>, a boolean \<^verbatim>\<open>open_access_pdf\<close> is sent under the key
  \<^verbatim>\<open>openAccessPdf\<close> as the lower-case string \<^verbatim>\<open>true\<close> or \<^verbatim>\<open>false\<close>, so \<^verbatim>\<open>False\<close> is sent and
  not dropped; the key is left out only when the argument is \<^verbatim>\<open>None\<close>.
\<close>

theorem open_access_pdf_serialised:
  "map (\<lambda>r. param_of r ''openAccessPdf'')
       (issued w (search_papers query flds limit offset year (PBool b) fields_of_study w))
     = [Some (PStr (if b then ''true'' else ''false''))]
   \<and> map (\<lambda>r. param_of r ''openAccessPdf'')
       (issued w (search_papers query flds limit offset year PNone fields_of_study w))
     = [None]
   \<and> (open_access_pdf \<noteq> PNone \<longrightarrow>
        map (\<lambda>r. param_of r ''openAccessPdf'')
          (issued w (search_papers query flds limit offset year open_access_pdf fields_of_study w))
        \<noteq> [None])"
  by (simp add: search_papers_def Let_def issued_dumps_result param_of_def dict_simps)

theorem open_access_pdf_serialised_witness:
  "map (\<lambda>r. param_of r ''openAccessPdf'')
       (issued (answering 200 ''{}'' (Some (PDict [])))
          (search_papers (PStr ''quantum'') search_papers_fields search_papers_limit search_papers_offset
             PNone (PBool False) PNone (answering 200 ''{}'' (Some (PDict [])))))
     = [Some (PStr ''false'')]"
  using open_access_pdf_serialised [of "answering 200 ''{}'' (Some (PDict []))" "PStr ''quantum''"
      search_papers_fields search_papers_limit search_papers_offset PNone False PNone]
  by simp

section \<open>Paging parameters\<close>

lemma paged_search_papers:
  "map (\<lambda>r. (param_of r ''limit'', param_of r ''offset''))
       (issued w (search_papers query flds limit offset year oa fos w))
     = [(Some (PInt (clamp_limit limit 100)), Some (PInt (clamp_offset offset)))]"
  by (simp add: search_papers_def Let_def issued_dumps_result param_of_def dict_simps)

lemma paged_search_papers_bulk:
  assumes "isinstance_list_tuple qs" "items_of qs \<noteq> []" "length (items_of qs) \<le> 100"
    and "list_all (\<lambda>x. isinstance_str x \<and> strip (str_of x) \<noteq> []) (items_of qs)"
  shows "map (\<lambda>r. (body_of r ''limit'', body_of r ''offset''))
       (issued w (search_papers_bulk qs flds limit offset w))
     = [(Some (PInt (clamp_limit limit 100)), Some (PInt (clamp_offset offset)))]"
  using assms
  by (simp add: search_papers_bulk_def Let_def clean_loop_ok issued_dumps_result body_of_def dict_simps)

lemma paged_paper_autocomplete:
  assumes "isinstance_str s" "strip (str_of s) \<noteq> []"
  shows "map (\<lambda>r. param_of r ''limit'') (issued w (paper_autocomplete s limit w))
     = [Some (PInt (clamp_limit limit 100))]"
  using assms
  by (simp add: paper_autocomplete_def Let_def issued_dumps_result param_of_def dict_simps)

lemma paged_by_id:
  assumes "isinstance_str s" "strip (str_of s) \<noteq> []"
  shows "map (\<lambda>r. (param_of r ''limit'', param_of r ''offset''))
       (issued w (get_paper_authors s flds limit offset w))
     = [(Some (PInt (clamp_limit limit 100)), Some (PInt (clamp_offset offset)))]"
    and "map (\<lambda>r. (param_of r ''limit'', param_of r ''offset''))
       (issued w (get_paper_citations s flds limit offset w))
     = [(Some (PInt (clamp_limit limit 100)), Some (PInt (clamp_offset offset)))]"
    and "map (\<lambda>r. (param_of r ''limit'', param_of r ''offset''))
       (issued w (get_paper_references s flds limit offset w))
     = [(Some (PInt (clamp_limit limit 100)), Some (PInt (clamp_offset offset)))]"
    and "map (\<lambda>r. (param_of r ''limit'', param_of r ''offset''))
       (issued w (get_author_papers s flds limit offset sort_by w))
     = [(Some (PInt (clamp_limit limit 100)), Some (PInt (clamp_offset offset)))]"
  using assms
  by (simp_all add: get_paper_authors_def get_paper_citations_def get_paper_references_def
        get_author_papers_def Let_def issued_dumps_result param_of_def dict_simps)

lemma paged_by_query:
  assumes "isinstance_str s" "strip (str_of s) \<noteq> []"
  shows "map (\<lambda>r. (param_of r ''limit'', param_of r ''offset''))
       (issued w (search_authors s flds limit offset w))
     = [(Some (PInt (clamp_limit limit 100)), Some (PInt (clamp_offset offset)))]"
    and "map (\<lambda>r. (param_of r ''limit'', param_of r ''offset''))
       (issued w (snippet_search s flds limit offset fos w))
     = [(Some (PInt (clamp_limit limit 100)), Some (PInt (clamp_offset offset)))]"
  using assms
  by (simp_all add: search_authors_def snippet_search_def Let_def issued_dumps_result param_of_def dict_simps)

text \<open>
  Claim C5. Every tool with a limit bounded by 100 places \<^verbatim>\<open>max(1, min(limit, 100))\<close> under
  \<^verbatim>\<open>limit\<close> and \<^verbatim>\<open>max(0, offset)\<close> under \<^verbatim>\<open>offset\<close> of the one request it sends, for every
  integer limit and offset: the limit sent lies in [1,100] and the offset sent is at least 0;
  a limit of 0 becomes 1, a limit of 500 becomes 100 and an offset of -5 becomes 0. The tools
  are the paper search, the bulk search (in its JSON body), the autocompletion (which has no
  offset), the authors, citations and references of a paper, the author search, the papers of
  an author and the snippet search; \<open>s\<close> is the required string of the tool and \<open>qs\<close> the
  list of queries of the bulk search, both passing the tool's validation.
\<close>

theorem limit_offset_clamped:
  assumes "isinstance_str s" and "strip (str_of s) \<noteq> []"
    and "isinstance_list_tuple qs" and "items_of qs \<noteq> []" and "length (items_of qs) \<le> 100"
    and "list_all (\<lambda>x. isinstance_str x \<and> strip (str_of x) \<noteq> []) (items_of qs)"
  shows "map (\<lambda>r. (param_of r ''limit'', param_of r ''offset''))
           (issued w (search_papers query flds limit offset year oa fos w))
         = [(Some (PInt (clamp_limit limit 100)), Some (PInt (clamp_offset offset)))]
       \<and> map (\<lambda>r. (body_of r ''limit'', body_of r ''offset''))
           (issued w (search_papers_bulk qs flds limit offset w))
         = [(Some (PInt (clamp_limit limit 100)), Some (PInt (clamp_offset offset)))]
       \<and> map (\<lambda>r. param_of r ''limit'') (issued w (paper_autocomplete s limit w))
         = [Some (PInt (clamp_limit limit 100))]
       \<and> map (\<lambda>r. (param_of r ''limit'', param_of r ''offset''))
           (issued w (get_paper_authors s flds limit offset w))
         = [(Some (PInt (clamp_limit limit 100)), Some (PInt (clamp_offset offset)))]
       \<and> map (\<lambda>r. (param_of r ''limit'', param_of r ''offset''))
           (issued w (get_paper_citations s flds limit offset w))
         = [(Some (PInt (clamp_limit limit 100)), Some (PInt (clamp_offset offset)))]
       \<and> map (\<lambda>r. (param_of r ''limit'', param_of r ''offset''))
           (issued w (get_paper_references s flds limit offset w))
         = [(Some (PInt (clamp_limit limit 100)), Some (PInt (clamp_offset offset)))]
       \<and> map (\<lambda>r. (param_of r ''limit'', param_of r ''offset''))
           (issued w (search_authors s flds limit offset w))
         = [(Some (PInt (clamp_limit limit 100)), Some (PInt (clamp_offset offset)))]
       \<and> map (\<lambda>r. (param_of r ''limit'', param_of r ''offset''))
           (issued w (get_author_papers s flds limit offset sort_by w))
         = [(Some (PInt (clamp_limit limit 100)), Some (PInt (clamp_offset offset)))]
       \<and> map (\<lambda>r. (param_of r ''limit'', param_of r ''offset''))
           (issued w (snippet_search s flds limit offset fos w))
         = [(Some (PInt (clamp_limit limit 100)), Some (PInt (clamp_offset offset)))]
       \<and> clamp_limit limit 100 = max 1 (min limit 100)
       \<and> 1 \<le> clamp_limit limit 100 \<and> clamp_limit limit 100 \<le> 100
       \<and> clamp_offset offset = max 0 offset \<and> 0 \<le> clamp_offset offset
       \<and> clamp_limit 0 100 = 1 \<and> clamp_limit 500 100 = 100 \<and> clamp_offset (- 5) = 0"
proof -
  have arith: "clamp_limit limit 100 = max 1 (min limit 100)"
    "1 \<le> clamp_limit limit 100" "clamp_limit limit 100 \<le> 100"
    "clamp_offset offset = max 0 offset" "0 \<le> clamp_offset offset"
    "clamp_limit 0 100 = 1" "clamp_limit 500 100 = 100" "clamp_offset (- 5) = 0"
    by (simp_all add: clamp_limit_def clamp_offset_def)
  show ?thesis
    by (intro conjI paged_search_papers paged_search_papers_bulk paged_paper_autocomplete
          paged_by_id paged_by_query assms arith)
qed

theorem limit_offset_clamped_witness:
  "map (\<lambda>r. (param_of r ''limit'', param_of r ''offset''))
     (issued (answering 200 ''{}'' (Some (PDict [])))
        (search_authors (PStr ''quantum'') PNone 500 (- 5) (answering 200 ''{}'' (Some (PDict [])))))
     = [(Some (PInt 100), Some (PInt 0))]
   \<and> map (\<lambda>r. (body_of r ''limit'', body_of r ''offset''))
     (issued (answering 200 ''{}'' (Some (PDict [])))
        (search_papers_bulk (PList [PStr ''quantum'']) PNone 500 (- 5) (answering 200 ''{}'' (Some (PDict [])))))
     = [(Some (PInt 100), Some (PInt 0))]"
  using limit_offset_clamped [where s = "PStr ''quantum''" and qs = "PList [PStr ''quantum'']"
      and limit = 500 and offset = "- 5" and flds = PNone
      and w = "answering 200 ''{}'' (Some (PDict []))"]
  by (simp add: strip_quantum clamp_limit_def clamp_offset_def)

section \<open>The credential\<close>







lemma env_after_request:
  "env_key (snd (request_json meth path params body w)) = env_key w"
  "config_yaml (snd (request_json meth path params body w)) = config_yaml w"
  by (simp_all add: request_json_def Let_def split: sum.split option.split)


lemma strip_padded_title: "strip '' Attention '' = ''Attention''"
  by (simp add: strip_def is_space_def)















section \<open>The match search\<close>

lemma upper_POST: "upper ''POST'' = ''POST''" by code_simp
lemma upper_GET: "upper ''GET'' = ''GET''" by code_simp
lemma build_url_match:
  "build_url ''/paper/search/match'' = ''https://api.semanticscholar.org/graph/v1/paper/search/match''"
  by code_simp

lemma match_title_rejected:
  assumes "\<not> isinstance_str title \<or> strip (str_of title) = []"
  shows "search_papers_match title authors year venue flds limit w
           = (Inl (ValueError ''Parameter 'title' must be a non-empty string.''), w)"
  using assms by (auto simp: search_papers_match_def)

lemma match_year_rejected:
  assumes "isinstance_str title" "strip (str_of title) \<noteq> []"
    and "year \<noteq> PNone" and "\<not> isinstance_int year \<or> int_of year < 0"
  shows "search_papers_match title authors year venue flds limit w
           = (Inl (ValueError ''Parameter 'year' must be a non-negative integer if provided.''), w)"
  using assms by (auto simp: search_papers_match_def)

lemma match_sent:
  assumes "isinstance_str title" "strip (str_of title) \<noteq> []"
    and "year = PNone \<or> (\<exists>n. year = PInt n \<and> 0 \<le> n)"
  shows "map (\<lambda>r. (req_method r, req_url r, body_of r ''title'', body_of r ''limit'', body_of r ''year''))
           (issued w (search_papers_match title authors year venue flds limit w))
         = [(''POST'', ''https://api.semanticscholar.org/graph/v1/paper/search/match'',
             Some (PStr (strip (str_of title))), Some (PInt (clamp_limit limit 20)),
             (if year = PNone then None else Some year))]"
  using assms
  by (auto simp: search_papers_match_def Let_def issued_dumps_result body_of_def dict_simps
        upper_POST build_url_match)

text \<open>
  Claim C7. \<^verbatim>\<open>search_papers_match\<close> rejects a title that is not a string or is blank with
  a \<^verbatim>\<open>ValueError\<close> naming \<^verbatim>\<open>title\<close>, and a year that is given and is negative (or is not an
  integer) with a \<^verbatim>\<open>ValueError\<close> naming \<^verbatim>\<open>year\<close>, in both cases without sending anything;
  otherwise it sends exactly one request, a POST to \<^verbatim>\<open>/paper/search/match\<close> under the base
  address, whose body holds the stripped title and the limit clamped into [1,20].
\<close>

theorem search_papers_match_contract:
  "(\<not> isinstance_str title \<or> strip (str_of title) = [] \<longrightarrow>
      search_papers_match title authors year venue flds limit w
        = (Inl (ValueError ''Parameter 'title' must be a non-empty string.''), w)
      \<and> issued w (search_papers_match title authors year venue flds limit w) = [])
 \<and> (isinstance_str title \<and> strip (str_of title) \<noteq> [] \<and> n < 0 \<longrightarrow>
      search_papers_match title authors (PInt n) venue flds limit w
        = (Inl (ValueError ''Parameter 'year' must be a non-negative integer if provided.''), w)
      \<and> issued w (search_papers_match title authors (PInt n) venue flds limit w) = [])
 \<and> (isinstance_str title \<and> strip (str_of title) \<noteq> [] \<and> year \<noteq> PNone \<and> \<not> isinstance_int year \<longrightarrow>
      search_papers_match title authors year venue flds limit w
        = (Inl (ValueError ''Parameter 'year' must be a non-negative integer if provided.''), w)
      \<and> issued w (search_papers_match title authors year venue flds limit w) = [])
 \<and> (isinstance_str title \<and> strip (str_of title) \<noteq> []
      \<and> (year = PNone \<or> (\<exists>m. year = PInt m \<and> 0 \<le> m)) \<longrightarrow>
      map (\<lambda>r. (req_method r, req_url r, body_of r ''title'', body_of r ''limit'', body_of r ''year''))
        (issued w (search_papers_match title authors year venue flds limit w))
      = [(''POST'', ''https://api.semanticscholar.org/graph/v1/paper/search/match'',
          Some (PStr (strip (str_of title))), Some (PInt (clamp_limit limit 20)),
          (if year = PNone then None else Some year))])
 \<and> clamp_limit limit 20 = max 1 (min limit 20)
 \<and> 1 \<le> clamp_limit limit 20 \<and> clamp_limit limit 20 \<le> 20"
proof -
  have a: "\<not> isinstance_str title \<or> strip (str_of title) = [] \<longrightarrow>
      search_papers_match title authors year venue flds limit w
        = (Inl (ValueError ''Parameter 'title' must be a non-empty string.''), w)
      \<and> issued w (search_papers_match title authors year venue flds limit w) = []"
    using match_title_rejected [of title authors year venue flds limit w]
    by (auto simp: issued_unchanged)
  have b: "isinstance_str title \<and> strip (str_of title) \<noteq> [] \<and> n < 0 \<longrightarrow>
      search_papers_match title authors (PInt n) venue flds limit w
        = (Inl (ValueError ''Parameter 'year' must be a non-negative integer if provided.''), w)
      \<and> issued w (search_papers_match title authors (PInt n) venue flds limit w) = []"
    using match_year_rejected [of title "PInt n" authors venue flds limit w]
    by (auto simp: issued_unchanged)
  have c: "isinstance_str title \<and> strip (str_of title) \<noteq> [] \<and> year \<noteq> PNone \<and> \<not> isinstance_int year \<longrightarrow>
      search_papers_match title authors year venue flds limit w
        = (Inl (ValueError ''Parameter 'year' must be a non-negative integer if provided.''), w)
      \<and> issued w (search_papers_match title authors year venue flds limit w) = []"
    using match_year_rejected [of title year authors venue flds limit w]
    by (auto simp: issued_unchanged)
  have d: "isinstance_str title \<and> strip (str_of title) \<noteq> []
      \<and> (year = PNone \<or> (\<exists>m. year = PInt m \<and> 0 \<le> m)) \<longrightarrow>
      map (\<lambda>r. (req_method r, req_url r, body_of r ''title'', body_of r ''limit'', body_of r ''year''))
        (issued w (search_papers_match title authors year venue flds limit w))
      = [(''POST'', ''https://api.semanticscholar.org/graph/v1/paper/search/match'',
          Some (PStr (strip (str_of title))), Some (PInt (clamp_limit limit 20)),
          (if year = PNone then None else Some year))]"
    using match_sent [of title year w authors venue flds limit] by blast
  have e: "clamp_limit limit 20 = max 1 (min limit 20)"
    "1 \<le> clamp_limit limit 20" "clamp_limit limit 20 \<le> 20"
    by (simp_all add: clamp_limit_def)
  from a b c d e show ?thesis by (intro conjI)
qed

theorem search_papers_match_contract_witness:
  "search_papers_match (PStr '' Attention '') PNone (PInt (- 1)) PNone PNone 5 (answering 200 ''{}'' None)
     = (Inl (ValueError ''Parameter 'year' must be a non-negative integer if provided.''),
        answering 200 ''{}'' None)
   \<and> map (\<lambda>r. (req_method r, req_url r, body_of r ''title'', body_of r ''limit'', body_of r ''year''))
        (issued (answering 200 ''{}'' None)
           (search_papers_match (PStr '' Attention '') PNone PNone PNone PNone 50 (answering 200 ''{}'' None)))
     = [(''POST'', ''https://api.semanticscholar.org/graph/v1/paper/search/match'',
         Some (PStr ''Attention''), Some (PInt 20), None)]"
  using search_papers_match_contract
          [where title = "PStr '' Attention ''" and n = "- 1" and authors = PNone and venue = PNone
             and flds = PNone and limit = 5 and w = "answering 200 ''{}'' None"]
        search_papers_match_contract
          [where title = "PStr '' Attention ''" and year = PNone and authors = PNone and venue = PNone
             and flds = PNone and limit = 50 and w = "answering 200 ''{}'' None"]
  by (simp add: strip_padded_title clamp_limit_def)

section \<open>Field selectors\<close>











section \<open>Lists of identifiers and queries\<close>

lemma batch_rejected:
  assumes "\<not> isinstance_list_tuple xs \<or> items_of xs = [] \<or> length (items_of xs) > 1000
      \<or> \<not> list_all (\<lambda>x. isinstance_str x \<and> strip (str_of x) \<noteq> []) (items_of xs)"
  shows "\<exists>msg. get_papers_batch xs flds w = (Inl (ValueError msg), w)"
    and "\<exists>msg. get_authors_batch xs flds w = (Inl (ValueError msg), w)"
  using assms
  by (auto simp: get_papers_batch_def get_authors_batch_def clean_loop_bad)

lemma bulk_rejected:
  assumes "\<not> isinstance_list_tuple xs \<or> items_of xs = [] \<or> length (items_of xs) > 100
      \<or> \<not> list_all (\<lambda>x. isinstance_str x \<and> strip (str_of x) \<noteq> []) (items_of xs)"
  shows "\<exists>msg. search_papers_bulk xs flds limit offset w = (Inl (ValueError msg), w)"
  using assms
  by (auto simp: search_papers_bulk_def clean_loop_bad)

lemma build_url_paper_batch:
  "build_url ''/paper/batch'' = ''https://api.semanticscholar.org/graph/v1/paper/batch''"
  by code_simp

lemma two_id_batch:
  assumes "strip a \<noteq> []" "strip b \<noteq> []"
  shows "map (\<lambda>r. (req_method r, req_url r, req_params r, req_json r))
           (issued w (get_papers_batch (PList [PStr a, PStr b]) flds w))
         = [(''POST'', ''https://api.semanticscholar.org/graph/v1/paper/batch'', None,
             Some (put_truthy [(''ids'', PList [PStr (strip a), PStr (strip b)])] ''fields''
                     (normalize_fields flds)))]"
  using assms
  by (simp add: get_papers_batch_def Let_def issued_dumps_result upper_POST build_url_paper_batch)

lemma strip_ids: "strip ''id1'' = ''id1''" "strip ''id2'' = ''id2''"
  by (simp_all add: strip_def is_space_def)

text \<open>
  Claim C4, as amended. \<^verbatim>\<open>get_papers_batch\<close>, \<^verbatim>\<open>get_authors_batch\<close> (bound 1000) and
  \<^verbatim>\<open>search_papers_bulk\<close> (bound 100) raise a \<^verbatim>\<open>ValueError\<close> and send nothing when the
  argument is not a list or tuple, is empty, is longer than the bound, or has an item that is
  not a string or is blank. A batch of two valid identifiers sends exactly one request, a POST
  to \<^verbatim>\<open>/paper/batch\<close> without query parameters, whose body is \<^verbatim>\<open>{"ids": [id1, id2]}\<close> (the
  identifiers stripped) followed by the entry \<^verbatim>\<open>fields\<close> when the normalised field selector
  is not empty; the body is \<^verbatim>\<open>{"ids": [id1, id2]}\<close> alone when the selector is absent or
  empty.
\<close>

theorem list_inputs_validated:
  "(\<not> isinstance_list_tuple xs \<or> items_of xs = [] \<or> length (items_of xs) > 1000
      \<or> \<not> list_all (\<lambda>x. isinstance_str x \<and> strip (str_of x) \<noteq> []) (items_of xs) \<longrightarrow>
      (\<exists>msg. get_papers_batch xs flds w = (Inl (ValueError msg), w))
      \<and> issued w (get_papers_batch xs flds w) = []
      \<and> (\<exists>msg. get_authors_batch xs flds w = (Inl (ValueError msg), w))
      \<and> issued w (get_authors_batch xs flds w) = [])
 \<and> (\<not> isinstance_list_tuple xs \<or> items_of xs = [] \<or> length (items_of xs) > 100
      \<or> \<not> list_all (\<lambda>x. isinstance_str x \<and> strip (str_of x) \<noteq> []) (items_of xs) \<longrightarrow>
      (\<exists>msg. search_papers_bulk xs flds limit offset w = (Inl (ValueError msg), w))
      \<and> issued w (search_papers_bulk xs flds limit offset w) = [])
 \<and> (strip a \<noteq> [] \<and> strip b \<noteq> [] \<longrightarrow>
      map (\<lambda>r. (req_method r, req_url r, req_params r, req_json r))
        (issued w (get_papers_batch (PList [PStr a, PStr b]) flds w))
      = [(''POST'', ''https://api.semanticscholar.org/graph/v1/paper/batch'', None,
          Some (put_truthy [(''ids'', PList [PStr (strip a), PStr (strip b)])] ''fields''
                  (normalize_fields flds)))])
 \<and> put_truthy [(''ids'', v)] ''fields'' None = [(''ids'', v)]
 \<and> put_truthy [(''ids'', v)] ''fields'' (Some []) = [(''ids'', v)]
 \<and> (s \<noteq> [] \<longrightarrow>
      put_truthy [(''ids'', v)] ''fields'' (Some s) = [(''ids'', v), (''fields'', PStr s)])"
proof -
  have a: "\<not> isinstance_list_tuple xs \<or> items_of xs = [] \<or> length (items_of xs) > 1000
      \<or> \<not> list_all (\<lambda>x. isinstance_str x \<and> strip (str_of x) \<noteq> []) (items_of xs) \<longrightarrow>
      (\<exists>msg. get_papers_batch xs flds w = (Inl (ValueError msg), w))
      \<and> issued w (get_papers_batch xs flds w) = []
      \<and> (\<exists>msg. get_authors_batch xs flds w = (Inl (ValueError msg), w))
      \<and> issued w (get_authors_batch xs flds w) = []"
  proof
    assume bad: "\<not> isinstance_list_tuple xs \<or> items_of xs = [] \<or> length (items_of xs) > 1000
      \<or> \<not> list_all (\<lambda>x. isinstance_str x \<and> strip (str_of x) \<noteq> []) (items_of xs)"
    obtain m1 where m1: "get_papers_batch xs flds w = (Inl (ValueError m1), w)"
      using batch_rejected(1) [OF bad] by blast
    obtain m2 where m2: "get_authors_batch xs flds w = (Inl (ValueError m2), w)"
      using batch_rejected(2) [OF bad] by blast
    show "(\<exists>msg. get_papers_batch xs flds w = (Inl (ValueError msg), w))
      \<and> issued w (get_papers_batch xs flds w) = []
      \<and> (\<exists>msg. get_authors_batch xs flds w = (Inl (ValueError msg), w))
      \<and> issued w (get_authors_batch xs flds w) = []"
      by (simp add: m1 m2 issued_unchanged)
  qed
  have b: "\<not> isinstance_list_tuple xs \<or> items_of xs = [] \<or> length (items_of xs) > 100
      \<or> \<not> list_all (\<lambda>x. isinstance_str x \<and> strip (str_of x) \<noteq> []) (items_of xs) \<longrightarrow>
      (\<exists>msg. search_papers_bulk xs flds limit offset w = (Inl (ValueError msg), w))
      \<and> issued w (search_papers_bulk xs flds limit offset w) = []"
  proof
    assume bad: "\<not> isinstance_list_tuple xs \<or> items_of xs = [] \<or> length (items_of xs) > 100
      \<or> \<not> list_all (\<lambda>x. isinstance_str x \<and> strip (str_of x) \<noteq> []) (items_of xs)"
    obtain m where m: "search_papers_bulk xs flds limit offset w = (Inl (ValueError m), w)"
      using bulk_rejected [OF bad] by blast
    show "(\<exists>msg. search_papers_bulk xs flds limit offset w = (Inl (ValueError msg), w))
      \<and> issued w (search_papers_bulk xs flds limit offset w) = []"
      by (simp add: m issued_unchanged)
  qed
  have c: "strip a \<noteq> [] \<and> strip b \<noteq> [] \<longrightarrow>
      map (\<lambda>r. (req_method r, req_url r, req_params r, req_json r))
        (issued w (get_papers_batch (PList [PStr a, PStr b]) flds w))
      = [(''POST'', ''https://api.semanticscholar.org/graph/v1/paper/batch'', None,
          Some (put_truthy [(''ids'', PList [PStr (strip a), PStr (strip b)])] ''fields''
                  (normalize_fields flds)))]"
    using two_id_batch [of a b w flds] by blast
  have d: "put_truthy [(''ids'', v)] ''fields'' None = [(''ids'', v)]"
    "put_truthy [(''ids'', v)] ''fields'' (Some []) = [(''ids'', v)]"
    "s \<noteq> [] \<longrightarrow> put_truthy [(''ids'', v)] ''fields'' (Some s) = [(''ids'', v), (''fields'', PStr s)]"
    by (simp_all add: put_truthy_def)
  from a b c d show ?thesis by (intro conjI)
qed

theorem list_inputs_validated_witness:
  "issued (answering 200 ''[]'' (Some (PList [])))
     (get_papers_batch (PList []) PNone (answering 200 ''[]'' (Some (PList [])))) = []
   \<and> issued (answering 200 ''[]'' (Some (PList [])))
     (get_papers_batch (PList (replicate 1001 (PStr ''id''))) PNone (answering 200 ''[]'' (Some (PList [])))) = []
   \<and> map (\<lambda>r. (req_method r, req_url r, req_params r, req_json r))
        (issued (answering 200 ''[]'' (Some (PList [])))
           (get_papers_batch (PList [PStr ''id1'', PStr ''id2'']) PNone (answering 200 ''[]'' (Some (PList [])))))
      = [(''POST'', ''https://api.semanticscholar.org/graph/v1/paper/batch'', None,
          Some [(''ids'', PList [PStr ''id1'', PStr ''id2''])])]"
  using list_inputs_validated
          [where xs = "PList []" and flds = PNone and w = "answering 200 ''[]'' (Some (PList []))"
             and a = "''id1''" and b = "''id2''"]
        list_inputs_validated
          [where xs = "PList (replicate 1001 (PStr ''id''))" and flds = PNone
             and w = "answering 200 ''[]'' (Some (PList []))"]
  by (simp add: strip_ids normalize_fields_def put_truthy_def)

text \<open>
  Claim C4 as stated fails on the body: with the default \<^verbatim>\<open>fields\<close> argument the body of
  \<^verbatim>\<open>get_papers_batch(["id1", "id2"])\<close> also holds the entry \<^verbatim>\<open>fields\<close>.
\<close>

theorem batch_body_counterexample:
  "map (\<lambda>r. (req_method r, req_url r, req_json r))
     (issued (answering 200 ''[]'' (Some (PList [])))
        (get_papers_batch (PList [PStr ''id1'', PStr ''id2'']) get_papers_batch_fields
           (answering 200 ''[]'' (Some (PList [])))))
   = [(''POST'', ''https://api.semanticscholar.org/graph/v1/paper/batch'',
       Some [(''ids'', PList [PStr ''id1'', PStr ''id2'']),
             (''fields'', PStr ''title,authors,year,venue,externalIds,url'')])]
   \<and> [(''ids'', PList [PStr ''id1'', PStr ''id2'']),
       (''fields'', PStr ''title,authors,year,venue,externalIds,url'')]
     \<noteq> [(''ids'', PList [PStr ''id1'', PStr ''id2''])]"
  by (simp add: get_papers_batch_def get_papers_batch_fields_def Let_def strip_ids
        issued_dumps_result upper_POST build_url_paper_batch normalize_fields_def put_truthy_def)

section \<open>Required strings\<close>

text \<open>Ten of the eleven tools with a required string reject a value that is not a string or is
  blank before anything is sent (\<open>required_string_rejected\<close>), and place the stripped string in
  the request (\<open>required_strings_stripped\<close>, \<open>list_items_stripped\<close>). \<^verbatim>\<open>search_papers\<close> does
  neither with its query.\<close>

lemma build_url_under:
  "build_url (CHR ''/'' # CHR ''p'' # x) = ''https://api.semanticscholar.org/graph/v1/p'' @ x"
  "build_url (CHR ''/'' # CHR ''a'' # x) = ''https://api.semanticscholar.org/graph/v1/a'' @ x"
  by (simp_all add: build_url_def BASE_URL_def lstrip_chars_def rstrip_chars_def)

lemma request_json_no_ValueError:
  "fst (request_json meth path params body w) \<noteq> Inl (ValueError msg)"
  by (simp add: request_json_def Let_def split: sum.split option.split)

lemma dumps_result_no_ValueError:
  "fst r \<noteq> Inl (ValueError msg) \<Longrightarrow> fst (dumps_result r) \<noteq> Inl (ValueError msg)"
  by (cases r) (auto simp: dumps_result_def split: sum.split)

lemma required_string_rejected:
  assumes "\<not> isinstance_str s \<or> strip (str_of s) = []"
  shows "get_paper s flds w = (Inl (ValueError ''Parameter 'paper_id' must be a non-empty string.''), w)"
    and "search_papers_match s authors year venue flds limit w
           = (Inl (ValueError ''Parameter 'title' must be a non-empty string.''), w)"
    and "paper_autocomplete s limit w = (Inl (ValueError ''Parameter 'query' must be a non-empty string.''), w)"
    and "get_paper_authors s flds limit offset w
           = (Inl (ValueError ''Parameter 'paper_id' must be a non-empty string.''), w)"
    and "get_paper_citations s flds limit offset w
           = (Inl (ValueError ''Parameter 'paper_id' must be a non-empty string.''), w)"
    and "get_paper_references s flds limit offset w
           = (Inl (ValueError ''Parameter 'paper_id' must be a non-empty string.''), w)"
    and "get_author s flds w = (Inl (ValueError ''Parameter 'author_id' must be a non-empty string.''), w)"
    and "search_authors s flds limit offset w
           = (Inl (ValueError ''Parameter 'query' must be a non-empty string.''), w)"
    and "get_author_papers s flds limit offset sort_by w
           = (Inl (ValueError ''Parameter 'author_id' must be a non-empty string.''), w)"
    and "snippet_search s flds limit offset fos w
           = (Inl (ValueError ''Parameter 'query' must be a non-empty string.''), w)"
  using assms
  by (auto simp: get_paper_def search_papers_match_def paper_autocomplete_def get_paper_authors_def
        get_paper_citations_def get_paper_references_def get_author_def search_authors_def
        get_author_papers_def snippet_search_def)

lemma search_papers_sends_query:
  "map (\<lambda>r. (req_method r, req_url r, param_of r ''query''))
     (issued w (search_papers query flds limit offset year oa fos w))
   = [(''GET'', ''https://api.semanticscholar.org/graph/v1/paper/search'', Some query)]"
  by (simp add: search_papers_def Let_def issued_dumps_result param_of_def dict_simps upper_GET
        build_url_paper_search)

lemma search_papers_no_ValueError:
  "fst (search_papers query flds limit offset year oa fos w) \<noteq> Inl (ValueError msg)"
  by (simp add: search_papers_def Let_def dumps_result_no_ValueError request_json_no_ValueError)

text \<open>
  Claim C1, on the code. The claim asks every tool with a required string, \<^verbatim>\<open>search_papers\<close>
  included, to raise an invalid-argument error for an empty string, a blank string and
  \<^verbatim>\<open>None\<close> before any network call. \<^verbatim>\<open>search_papers\<close> has no such check: for each of the three
  values it sends one GET to \<^verbatim>\<open>/paper/search\<close> carrying the value under \<^verbatim>\<open>query\<close>, and its
  outcome is never a \<^verbatim>\<open>ValueError\<close>.
\<close>

theorem search_papers_query_unchecked:
  "map (\<lambda>r. (req_method r, req_url r, param_of r ''query''))
     (issued w (search_papers (PStr []) flds limit offset year oa fos w))
   = [(''GET'', ''https://api.semanticscholar.org/graph/v1/paper/search'', Some (PStr []))]
 \<and> map (\<lambda>r. (req_method r, req_url r, param_of r ''query''))
     (issued w (search_papers (PStr ''   '') flds limit offset year oa fos w))
   = [(''GET'', ''https://api.semanticscholar.org/graph/v1/paper/search'', Some (PStr ''   ''))]
 \<and> map (\<lambda>r. (req_method r, req_url r, param_of r ''query''))
     (issued w (search_papers PNone flds limit offset year oa fos w))
   = [(''GET'', ''https://api.semanticscholar.org/graph/v1/paper/search'', Some PNone)]
 \<and> fst (search_papers (PStr []) flds limit offset year oa fos w) \<noteq> Inl (ValueError msg)
 \<and> fst (search_papers (PStr ''   '') flds limit offset year oa fos w) \<noteq> Inl (ValueError msg)
 \<and> fst (search_papers PNone flds limit offset year oa fos w) \<noteq> Inl (ValueError msg)"
  by (intro conjI search_papers_sends_query search_papers_no_ValueError)

theorem search_papers_query_unchecked_witness:
  "map (\<lambda>r. (req_method r, req_url r, param_of r ''query''))
     (issued (answering 200 ''{}'' (Some (PDict [])))
        (search_papers (PStr []) search_papers_fields search_papers_limit search_papers_offset
           PNone PNone PNone (answering 200 ''{}'' (Some (PDict [])))))
   = [(''GET'', ''https://api.semanticscholar.org/graph/v1/paper/search'', Some (PStr []))]
 \<and> fst (search_papers (PStr []) search_papers_fields search_papers_limit search_papers_offset
           PNone PNone PNone (answering 200 ''{}'' (Some (PDict []))))
   = Inr ''{}''"
  using search_papers_query_unchecked
          [where w = "answering 200 ''{}'' (Some (PDict []))" and flds = search_papers_fields
             and limit = search_papers_limit and offset = search_papers_offset
             and year = PNone and oa = PNone and fos = PNone]
  by (simp add: search_papers_def Let_def request_json_def dumps_result_def)

lemma strip_padded_quantum: "strip '' quantum '' = ''quantum''"
  by (simp add: strip_def is_space_def)

lemma search_authors_sends_stripped:
  "map (\<lambda>r. (req_method r, req_url r, param_of r ''query''))
     (issued w (search_authors (PStr '' quantum '') flds limit offset w))
   = [(''GET'', ''https://api.semanticscholar.org/graph/v1/author/search'', Some (PStr ''quantum''))]"
  by (simp add: strip_padded_quantum search_authors_def Let_def
        issued_dumps_result param_of_def dict_simps upper_GET build_url_under)

lemma required_strings_stripped:
  assumes "isinstance_str s" "strip (str_of s) \<noteq> []"
  shows "map req_url (issued w (get_paper s flds w))
           = [''https://api.semanticscholar.org/graph/v1/paper/'' @ quote (strip (str_of s))]"
    and "map req_url (issued w (get_paper_authors s flds limit offset w))
           = [''https://api.semanticscholar.org/graph/v1/paper/'' @ quote (strip (str_of s)) @ ''/authors'']"
    and "map req_url (issued w (get_paper_citations s flds limit offset w))
           = [''https://api.semanticscholar.org/graph/v1/paper/'' @ quote (strip (str_of s)) @ ''/citations'']"
    and "map req_url (issued w (get_paper_references s flds limit offset w))
           = [''https://api.semanticscholar.org/graph/v1/paper/'' @ quote (strip (str_of s)) @ ''/references'']"
    and "map req_url (issued w (get_author s flds w))
           = [''https://api.semanticscholar.org/graph/v1/author/'' @ quote (strip (str_of s))]"
    and "map req_url (issued w (get_author_papers s flds limit offset sort_by w))
           = [''https://api.semanticscholar.org/graph/v1/author/'' @ quote (strip (str_of s)) @ ''/papers'']"
    and "map (\<lambda>r. param_of r ''query'') (issued w (paper_autocomplete s limit w))
           = [Some (PStr (strip (str_of s)))]"
    and "map (\<lambda>r. param_of r ''query'') (issued w (search_authors s flds limit offset w))
           = [Some (PStr (strip (str_of s)))]"
    and "map (\<lambda>r. param_of r ''query'') (issued w (snippet_search s flds limit offset fos w))
           = [Some (PStr (strip (str_of s)))]"
    and "map (\<lambda>r. body_of r ''title'') (issued w (search_papers_match s authors PNone venue flds limit w))
           = [Some (PStr (strip (str_of s)))]"
  using assms
  by (simp_all add: get_paper_def get_paper_authors_def get_paper_citations_def
        get_paper_references_def get_author_def get_author_papers_def paper_autocomplete_def
        search_authors_def snippet_search_def search_papers_match_def Let_def
        issued_dumps_result param_of_def body_of_def dict_simps build_url_under)

lemma list_items_stripped:
  assumes "isinstance_list_tuple xs" "items_of xs \<noteq> []"
    and "list_all (\<lambda>x. isinstance_str x \<and> strip (str_of x) \<noteq> []) (items_of xs)"
  shows "length (items_of xs) \<le> 1000 \<Longrightarrow>
         map (\<lambda>r. body_of r ''ids'') (issued w (get_papers_batch xs flds w))
           = [Some (PList (map (\<lambda>x. PStr (strip (str_of x))) (items_of xs)))]"
    and "length (items_of xs) \<le> 1000 \<Longrightarrow>
         map (\<lambda>r. body_of r ''ids'') (issued w (get_authors_batch xs flds w))
           = [Some (PList (map (\<lambda>x. PStr (strip (str_of x))) (items_of xs)))]"
    and "length (items_of xs) \<le> 100 \<Longrightarrow>
         map (\<lambda>r. body_of r ''queries'') (issued w (search_papers_bulk xs flds limit offset w))
           = [Some (PList (map (\<lambda>x. PStr (strip (str_of x))) (items_of xs)))]"
  using assms
  by (simp_all add: get_papers_batch_def get_authors_batch_def search_papers_bulk_def Let_def
        clean_loop_ok issued_dumps_result body_of_def dict_simps comp_def)

text \<open>
  Claim C9, on the code. The claim asks every required string to be stripped before it is
  placed into the request. \<^verbatim>\<open>search_papers\<close> sends its query as given: the padded query
  \<^verbatim>\<open>" quantum "\<close> goes out with its blanks, where \<^verbatim>\<open>search_authors\<close> sends \<^verbatim>\<open>quantum\<close>.
\<close>

theorem search_papers_query_unstripped:
  "map (\<lambda>r. (req_method r, req_url r, param_of r ''query''))
     (issued w (search_papers (PStr '' quantum '') flds limit offset year oa fos w))
   = [(''GET'', ''https://api.semanticscholar.org/graph/v1/paper/search'', Some (PStr '' quantum ''))]
 \<and> strip '' quantum '' = ''quantum''
 \<and> map (\<lambda>r. (req_method r, req_url r, param_of r ''query''))
     (issued w (search_authors (PStr '' quantum '') flds limit offset w))
   = [(''GET'', ''https://api.semanticscholar.org/graph/v1/author/search'', Some (PStr ''quantum''))]"
  by (intro conjI search_papers_sends_query strip_padded_quantum search_authors_sends_stripped)

theorem search_papers_query_unstripped_witness:
  "map (\<lambda>r. (req_method r, req_url r, param_of r ''query''))
     (issued (answering 200 ''{}'' (Some (PDict [])))
        (search_papers (PStr '' quantum '') search_papers_fields search_papers_limit
           search_papers_offset PNone PNone PNone (answering 200 ''{}'' (Some (PDict [])))))
   = [(''GET'', ''https://api.semanticscholar.org/graph/v1/paper/search'', Some (PStr '' quantum ''))]"
  using search_papers_query_unstripped
          [where w = "answering 200 ''{}'' (Some (PDict []))" and flds = search_papers_fields
             and limit = search_papers_limit and offset = search_papers_offset
             and year = PNone and oa = PNone and fos = PNone]
  by simp

end
